theory Spec2Isabelle
  imports Complex_Main
begin

section \<open>Errors\<close>

text \<open>
  Modelled from the spec: the exception classes, which are not among the source
  files. The errors of the circuit builder, the DAG and the pass framework are the
  taxonomy of section 7 of the specification; \<^verbatim>\<open>PassExecutionError\<close> wraps the
  failure raised inside a pass.
\<close>

datatype error =
    DuplicateRegisterError
  | UnknownWireError
  | ArityMismatchError
  | DuplicateWireArgumentError
  | NodeNotFoundError
  | MissingPropertyError
  | InvariantViolationError
  | PassExecutionError error

section \<open>Registers, qubits and gates\<close>

text \<open>
  Modelled from the spec: the class \<^verbatim>\<open>QuantumRegister\<close>, which is not among the
  source files. A register has a name and a size, which \<^verbatim>\<open>z\<close> reads as \<^verbatim>\<open>q.sz\<close>. A
  qubit is the pair \<^verbatim>\<open>(register, index)\<close>, as \<^verbatim>\<open>z\<close> builds it in
  \<^verbatim>\<open>self.z((q, j))\<close> and as \<^verbatim>\<open>qasm\<close> reads it (\<^verbatim>\<open>ctl[0].name\<close>, \<^verbatim>\<open>ctl[1]\<close>). The
  index is a Python integer.
\<close>

record quantum_register =
  reg_name :: string
  sz :: nat

type_synonym qubit = "quantum_register \<times> int"

type_synonym clbit = "quantum_register \<times> int"

text \<open>
  Modelled from the spec: the class \<^verbatim>\<open>Gate\<close> that \<^verbatim>\<open>cy.py\<close> and \<^verbatim>\<open>z.py\<close> import,
  which is not among the source files. Their gates are built by
  \<^verbatim>\<open>Gate.__init__(name, param, arg, circ)\<close>: a name, a parameter list, the bound qubit
  arguments (read back as \<^verbatim>\<open>self.arg\<close>) and a reference to the circuit (\<^verbatim>\<open>None\<close> by
  default). The reference is modelled by the identity of the circuit.
\<close>

record gate =
  name :: string
  param :: "real list"
  arg :: "qubit list"
  circuit :: "nat option"

text \<open>
  Modelled from the spec: the class \<^verbatim>\<open>Gate\<close> that \<^verbatim>\<open>iswap.py\<close> imports, which is not
  among the source files. Its gate is built by
  \<^verbatim>\<open>Gate.__init__(name, num_qubits, params)\<close>: the Operation Descriptor of section 3,
  with a name, a qubit count, a parameter list, no classical bits, and a nested
  definition (a sequence of triples of a descriptor, its qubit arguments and its clbit
  arguments) that is absent until \<^verbatim>\<open>_define\<close> sets it.
\<close>

datatype op_gate =
  Gate (op_name: string) (num_qubits: nat) (params: "real list")
       (op_definition: "(op_gate \<times> qubit list \<times> clbit list) list option")

text \<open>
  Modelled from the spec: the clbit count of an operation descriptor. A \<^verbatim>\<open>Gate\<close>
  acts on qubits only.
\<close>

definition num_clbits :: "op_gate \<Rightarrow> nat" where
  "num_clbits g = 0"

section \<open>The circuit builder\<close>

text \<open>
  Modelled from the spec: the class \<^verbatim>\<open>QuantumCircuit\<close>, which is not among the
  source files. A circuit is its identity, its declared quantum and classical
  registers and the ordered list \<^verbatim>\<open>data\<close> of what has been applied to it: a bound
  gate attached by \<^verbatim>\<open>_attach\<close>, or an operation with its qubit and clbit arguments
  appended by \<^verbatim>\<open>append\<close>.
\<close>

datatype circuit_entry =
    Attached gate
  | Appended op_gate "qubit list" "clbit list"

record quantum_circuit =
  circ_id :: nat
  qregs :: "quantum_register list"
  cregs :: "quantum_register list"
  data :: "circuit_entry list"

text \<open>
  Modelled from the spec: the Wire Registry (section 4.1), which is not among the
  source files. A (register, index) pair is a declared wire of the circuit when the
  register was declared for that kind and the index is within the register.
\<close>

definition has_qubit :: "quantum_circuit \<Rightarrow> qubit \<Rightarrow> bool" where
  "has_qubit self q \<longleftrightarrow> fst q \<in> set (qregs self) \<and> 0 \<le> snd q \<and> snd q < int (sz (fst q))"

definition has_clbit :: "quantum_circuit \<Rightarrow> clbit \<Rightarrow> bool" where
  "has_clbit self b \<longleftrightarrow> fst b \<in> set (cregs self) \<and> 0 \<le> snd b \<and> snd b < int (sz (fst b))"

text \<open>
  Modelled from the spec: \<^verbatim>\<open>QuantumCircuit._check_qubit\<close>, which is not among the
  source files. It resolves a (register, index) pair against the declared wires and
  fails with \<^verbatim>\<open>UnknownWireError\<close> when the wire was not declared.
\<close>

definition check_qubit :: "quantum_circuit \<Rightarrow> qubit \<Rightarrow> error + unit" where
  "check_qubit self q = (if has_qubit self q then Inr () else Inl UnknownWireError)"

text \<open>
  Modelled from the spec: \<^verbatim>\<open>QuantumCircuit._check_dups\<close>, which is not among the
  source files. It fails with \<^verbatim>\<open>DuplicateWireArgumentError\<close> when the same wire
  appears twice in the list of qubit arguments.
\<close>

definition check_dups :: "quantum_circuit \<Rightarrow> qubit list \<Rightarrow> error + unit" where
  "check_dups self qubits = (if distinct qubits then Inr () else Inl DuplicateWireArgumentError)"

text \<open>
  Modelled from the spec: \<^verbatim>\<open>QuantumCircuit._attach\<close>, which is not among the source
  files: the generic entry point that puts an already bound gate at the end of the
  circuit and returns that gate.
\<close>

definition attach :: "quantum_circuit \<Rightarrow> gate \<Rightarrow> quantum_circuit \<times> (error + gate)" where
  "attach self g = (self\<lparr>data := data self @ [Attached g]\<rparr>, Inr g)"

text \<open>
  Modelled from the spec: \<^verbatim>\<open>QuantumCircuit.append\<close>, which is not among the source
  files: the generic \<^verbatim>\<open>apply_operation(descriptor, qubit_args, clbit_args)\<close> of
  section 4.2. It fails with \<^verbatim>\<open>ArityMismatchError\<close> if the argument counts do not
  match the arity of the descriptor, with \<^verbatim>\<open>DuplicateWireArgumentError\<close> if the
  same wire appears twice in the qubit arguments, with \<^verbatim>\<open>UnknownWireError\<close> if an
  argument wire was not declared; on success it puts the operation at the end of the
  circuit and returns the identity of the new entry (its position in \<^verbatim>\<open>data\<close>).
  Section 4.2 lists the three failures without saying which one wins when several
  apply. Section 8 says that a gate given the same qubit twice always fails with
  \<^verbatim>\<open>DuplicateWireArgumentError\<close>, so the test for duplicates comes before the test
  that the wires are declared.
\<close>

definition circuit_append ::
  "quantum_circuit \<Rightarrow> op_gate \<Rightarrow> qubit list \<Rightarrow> clbit list \<Rightarrow> quantum_circuit \<times> (error + nat)" where
  "circuit_append self instruction qargs cargs =
     (if length qargs \<noteq> num_qubits instruction \<or> length cargs \<noteq> num_clbits instruction
        then (self, Inl ArityMismatchError)
      else if \<not> distinct qargs
        then (self, Inl DuplicateWireArgumentError)
      else if \<not> (list_all (has_qubit self) qargs \<and> list_all (has_clbit self) cargs)
        then (self, Inl UnknownWireError)
      else (self\<lparr>data := data self @ [Appended instruction qargs cargs]\<rparr>,
            Inr (length (data self))))"

section \<open>controlled-Y gate (cy.py)\<close>

definition CyGate :: "qubit \<Rightarrow> qubit \<Rightarrow> nat option \<Rightarrow> gate" where
  "CyGate ctl tgt circ = \<lparr>name = ''cy'', param = [], arg = [ctl, tgt], circuit = circ\<rparr>"

definition CyGate_inverse :: "gate \<Rightarrow> gate" where
  "CyGate_inverse self = self"

definition cy :: "quantum_circuit \<Rightarrow> qubit \<Rightarrow> qubit \<Rightarrow> quantum_circuit \<times> (error + gate)" where
  "cy self ctl tgt =
     (case check_qubit self ctl of
        Inl e \<Rightarrow> (self, Inl e)
      | Inr _ \<Rightarrow>
     (case check_qubit self tgt of
        Inl e \<Rightarrow> (self, Inl e)
      | Inr _ \<Rightarrow>
     (case check_dups self [ctl, tgt] of
        Inl e \<Rightarrow> (self, Inl e)
      | Inr _ \<Rightarrow> attach self (CyGate ctl tgt (Some (circ_id self))))))"

section \<open>Pauli Z gate (z.py)\<close>

definition ZGate :: "qubit \<Rightarrow> nat option \<Rightarrow> gate" where
  "ZGate qubit circ = \<lparr>name = ''z'', param = [], arg = [qubit], circuit = circ\<rparr>"

definition ZGate_inverse :: "gate \<Rightarrow> gate" where
  "ZGate_inverse self = self"

text \<open>
  Modelled from the spec: the class \<^verbatim>\<open>InstructionSet\<close>, which is not among the
  source files and which the specification does not describe: it is the collection
  of the gates that \<^verbatim>\<open>add\<close> has put into it, empty when created.
\<close>

datatype instruction_set = InstructionSet (instructions: "gate set")

definition add :: "instruction_set \<Rightarrow> gate \<Rightarrow> instruction_set" where
  "add gs g = InstructionSet (insert g (instructions gs))"

text \<open>
  The argument of \<^verbatim>\<open>z\<close> is either a whole register
  (\<^verbatim>\<open>isinstance(q, QuantumRegister)\<close>) or a single qubit; the result is an
  \<^verbatim>\<open>InstructionSet\<close> in the first case and the attached gate in the second.
\<close>

datatype z_arg = WholeRegister quantum_register | SingleQubit qubit

datatype z_result = GateSet instruction_set | OneGate gate

text \<open>The \<^verbatim>\<open>else\<close> branch of \<^verbatim>\<open>z\<close>: a single qubit.\<close>

definition z_qubit :: "quantum_circuit \<Rightarrow> qubit \<Rightarrow> quantum_circuit \<times> (error + gate)" where
  "z_qubit self q =
     (case check_qubit self q of
        Inl e \<Rightarrow> (self, Inl e)
      | Inr _ \<Rightarrow> attach self (ZGate q (Some (circ_id self))))"

text \<open>
  The loop \<^verbatim>\<open>for j in range(q.sz): gs.add(self.z((q, j)))\<close> over the remaining
  indices. The call \<^verbatim>\<open>self.z((q, j))\<close> receives a pair, so it runs the \<^verbatim>\<open>else\<close>
  branch; an exception raised there leaves the loop with the circuit as it is then.
\<close>

fun z_loop ::
  "quantum_circuit \<Rightarrow> instruction_set \<Rightarrow> quantum_register \<Rightarrow> nat list \<Rightarrow>
   quantum_circuit \<times> (error + instruction_set)" where
  "z_loop self gs q [] = (self, Inr gs)"
| "z_loop self gs q (j # js) =
     (case z_qubit self (q, int j) of
        (self', Inl e) \<Rightarrow> (self', Inl e)
      | (self', Inr g) \<Rightarrow> z_loop self' (add gs g) q js)"

fun z :: "quantum_circuit \<Rightarrow> z_arg \<Rightarrow> quantum_circuit \<times> (error + z_result)" where
  "z self (WholeRegister q) =
     (case z_loop self (InstructionSet {}) q [0 ..< sz q] of
        (self', Inl e) \<Rightarrow> (self', Inl e)
      | (self', Inr gs) \<Rightarrow> (self', Inr (GateSet gs)))"
| "z self (SingleQubit q) =
     (case z_qubit self q of
        (self', Inl e) \<Rightarrow> (self', Inl e)
      | (self', Inr g) \<Rightarrow> (self', Inr (OneGate g)))"

section \<open>iSWAP gate (iswap.py)\<close>

text \<open>
  Modelled from the spec: the constructor \<^verbatim>\<open>QuantumRegister(size, name)\<close>, which is
  not among the source files: the register of that size and name.
\<close>

definition QuantumRegister :: "nat \<Rightarrow> string \<Rightarrow> quantum_register" where
  "QuantumRegister n nm = \<lparr>reg_name = nm, sz = n\<rparr>"

text \<open>
  Modelled from the spec: \<^verbatim>\<open>q[j]\<close>, the qubit of register \<^verbatim>\<open>q\<close> at index \<^verbatim>\<open>j\<close>.
  \<^verbatim>\<open>_define\<close> reads the indices 0 and 1 of a register of size 2 only, which are in
  range.
\<close>

definition getitem :: "quantum_register \<Rightarrow> int \<Rightarrow> qubit" where
  "getitem q j = (q, j)"

definition iSwapGate :: op_gate where
  "iSwapGate = Gate ''iswap'' 2 [] None"

text \<open>
  Modelled from the spec: the class \<^verbatim>\<open>HGate\<close>, which \<^verbatim>\<open>_define\<close> imports from a
  module that is not among the source files. It is an opaque operation descriptor:
  the name that the docstring of \<^verbatim>\<open>_define\<close> gives it, the qubit count of its
  arguments there, no parameters and no definition yet.
\<close>

definition HGate :: op_gate where
  "HGate = Gate ''h'' 1 [] None"

text \<open>
  Modelled from the spec: the class \<^verbatim>\<open>SGate\<close>, which is not among the source
  files; an opaque operation descriptor like \<^verbatim>\<open>HGate\<close>.
\<close>

definition SGate :: op_gate where
  "SGate = Gate ''s'' 1 [] None"

text \<open>
  Modelled from the spec: the class \<^verbatim>\<open>CXGate\<close>, which is not among the source
  files; an opaque operation descriptor like \<^verbatim>\<open>HGate\<close>, on two qubits.
\<close>

definition CXGate :: op_gate where
  "CXGate = Gate ''cx'' 2 [] None"

definition iSwapGate_define :: "op_gate \<Rightarrow> op_gate" where
  "iSwapGate_define self =
     (let q = QuantumRegister 2 ''q'' in
      Gate (op_name self) (num_qubits self) (params self)
        (Some [
          (SGate, [getitem q 0], []),
          (SGate, [getitem q 1], []),
          (HGate, [getitem q 0], []),
          (CXGate, [getitem q 0, getitem q 1], []),
          (CXGate, [getitem q 1, getitem q 0], []),
          (HGate, [getitem q 1], [])
        ]))"

definition to_matrix :: "op_gate \<Rightarrow> complex list list" where
  "to_matrix self =
     [[1, 0, 0, 0],
      [0, 0, \<i>, 0],
      [0, \<i>, 0, 0],
      [0, 0, 0, 1]]"

definition iswap ::
  "quantum_circuit \<Rightarrow> qubit \<Rightarrow> qubit \<Rightarrow> quantum_circuit \<times> (error + nat)" where
  "iswap self qubit1 qubit2 = circuit_append self iSwapGate [qubit1, qubit2] []"

section \<open>The DAG\<close>

text \<open>
  Modelled from the spec: the class \<^verbatim>\<open>DAGCircuit\<close>, which is not among the source
  files. The data model is the one of section 3 of the specification: a wire is a
  register name, an index and a kind; a node is the input node or the output node of
  a wire, or an operation node with its descriptor and bound wires; nodes live in an
  arena and are addressed by their position; an edge \<open>(u, v, w)\<close> says that the use
  of wire \<open>w\<close> by \<open>v\<close> directly follows its use by \<open>u\<close>.
\<close>

datatype wire_kind = QubitWire | ClbitWire

datatype wire = Wire (wire_register: string) (wire_index: nat) (wire_kind: wire_kind)

datatype dag_node =
    InputNode wire
  | OutputNode wire
  | OperationNode op_gate "wire list"

record dag_circuit =
  dag_nodes :: "dag_node list"
  dag_edges :: "(nat \<times> nat \<times> wire) list"

fun is_output :: "dag_node \<Rightarrow> bool" where
  "is_output (OutputNode w) = True"
| "is_output n = False"

fun is_operation :: "dag_node \<Rightarrow> bool" where
  "is_operation (OperationNode g ws) = True"
| "is_operation n = False"

text \<open>
  Modelled from the spec: the predecessors of a node are the sources of the edges
  that end in it.
\<close>

definition predecessors :: "dag_circuit \<Rightarrow> nat \<Rightarrow> nat list" where
  "predecessors dag v = map fst (filter (\<lambda>e. fst (snd e) = v) (dag_edges dag))"

text \<open>
  Modelled from the spec: \<^verbatim>\<open>topological_nodes\<close> of the DAG, as node positions: every
  node appears after all of its predecessors, ties go to the node inserted first. A
  graph in which no pending node has all its predecessors produced is cyclic (or has
  a dangling edge) and signals \<^verbatim>\<open>InvariantViolationError\<close>.
\<close>

function topological_ids :: "dag_circuit \<Rightarrow> nat list \<Rightarrow> nat list \<Rightarrow> error + nat list" where
  "topological_ids dag pending produced =
     (if pending = [] then Inr produced
      else (case find (\<lambda>v. list_all (\<lambda>u. u \<in> set produced) (predecessors dag v)) pending of
              None \<Rightarrow> Inl InvariantViolationError
            | Some v \<Rightarrow> topological_ids dag (remove1 v pending) (produced @ [v])))"
  by pat_completeness auto
termination
proof (relation "measure (\<lambda>(dag, pending, produced). length pending)")
  show "wf (measure (\<lambda>(dag, pending, produced). length pending))"
    by simp
next
  fix dag :: dag_circuit and pending produced :: "nat list" and v :: nat
  assume nonempty: "pending \<noteq> []"
    and found: "find (\<lambda>v. list_all (\<lambda>u. u \<in> set produced) (predecessors dag v)) pending = Some v"
  from found have "v \<in> set pending"
    by (auto simp: find_Some_iff)
  then have "length (remove1 v pending) < length pending"
    using nonempty by (simp add: length_remove1)
  then show "((dag, remove1 v pending, produced @ [v]), (dag, pending, produced))
      \<in> measure (\<lambda>(dag, pending, produced). length pending)"
    by simp
qed

declare topological_ids.simps [simp del]

text \<open>
  Modelled from the spec: the dynamic programme of \<^verbatim>\<open>longest_path\<close>. The table gives
  each node its depth and the predecessor that achieves it: depth 0 for an input
  node, one more than the deepest predecessor for an operation node; among
  predecessors of equal depth the one produced first in the topological order is
  tracked.
\<close>

definition depth_of :: "(nat \<rightharpoonup> nat \<times> nat option) \<Rightarrow> nat \<Rightarrow> nat" where
  "depth_of tab u = (case tab u of None \<Rightarrow> 0 | Some (d, p) \<Rightarrow> d)"

fun best_pred :: "(nat \<Rightarrow> nat) \<Rightarrow> nat list \<Rightarrow> nat option" where
  "best_pred depth [] = None"
| "best_pred depth (u # us) =
     (case best_pred depth us of
        None \<Rightarrow> Some u
      | Some b \<Rightarrow> if depth u < depth b then Some b else Some u)"

fun depth_table ::
  "dag_circuit \<Rightarrow> nat list \<Rightarrow> nat list \<Rightarrow> (nat \<rightharpoonup> nat \<times> nat option) \<Rightarrow>
   (nat \<rightharpoonup> nat \<times> nat option)" where
  "depth_table dag produced [] tab = tab"
| "depth_table dag produced (v # vs) tab =
     (let entry =
        (if is_operation (dag_nodes dag ! v)
         then (let p = best_pred (depth_of tab)
                         (filter (\<lambda>u. u \<in> set (predecessors dag v)) produced)
               in (1 + (case p of None \<Rightarrow> 0 | Some u \<Rightarrow> depth_of tab u), p))
         else (0, None))
      in depth_table dag (produced @ [v]) vs (tab(v \<mapsto> entry)))"

text \<open>
  Modelled from the spec: the reconstruction of the path from the tracked
  predecessors, walking the topological order backwards from the end of the path.
\<close>

fun trace_back ::
  "(nat \<rightharpoonup> nat \<times> nat option) \<Rightarrow> nat list \<Rightarrow> nat option \<Rightarrow> nat list \<Rightarrow> nat list" where
  "trace_back tab [] target acc = acc"
| "trace_back tab (v # vs) target acc =
     (if target = Some v
      then trace_back tab vs (case tab v of None \<Rightarrow> None | Some (d, p) \<Rightarrow> p) (v # acc)
      else trace_back tab vs target acc)"

text \<open>
  Modelled from the spec: \<^verbatim>\<open>DAGCircuit.longest_path\<close>. The path ends at the deepest
  predecessor of an output node; input and output nodes are endpoints and are not
  part of the result, which is the ordered sequence of operation nodes. It reads the
  DAG and does not change it. The topological order lists positions of the arena
  only, so every node it reads exists.
\<close>

definition longest_path :: "dag_circuit \<Rightarrow> error + dag_node list" where
  "longest_path dag =
     (case topological_ids dag [0 ..< length (dag_nodes dag)] [] of
        Inl e \<Rightarrow> Inl e
      | Inr order \<Rightarrow>
          (let tab = depth_table dag [] order Map.empty;
               outs = filter (\<lambda>v. is_output (dag_nodes dag ! v)) order;
               ends = filter (\<lambda>u. list_ex (\<lambda>v. u \<in> set (predecessors dag v)) outs) order;
               ids = trace_back tab (rev order) (best_pred (depth_of tab) ends) []
           in Inr (filter is_operation (map (\<lambda>v. dag_nodes dag ! v) ids))))"

text \<open>
  Modelled from the spec: the invariant of the DAG Graph (section 3): the graph is
  acyclic, and its edges join nodes of the arena.
\<close>

definition edge_rel :: "dag_circuit \<Rightarrow> (nat \<times> nat) set" where
  "edge_rel dag = (\<lambda>e. (fst e, fst (snd e))) ` set (dag_edges dag)"

definition well_formed :: "dag_circuit \<Rightarrow> bool" where
  "well_formed dag \<longleftrightarrow>
     acyclic (edge_rel dag) \<and>
     list_all (\<lambda>e. fst e < length (dag_nodes dag) \<and> fst (snd e) < length (dag_nodes dag))
       (dag_edges dag)"

text \<open>
  Modelled from the spec: the scenario of section 8: qubit register \<^verbatim>\<open>q[2]\<close>, then
  \<^verbatim>\<open>H\<close> on \<^verbatim>\<open>q0\<close>, then \<^verbatim>\<open>CX\<close> on \<^verbatim>\<open>(q0, q1)\<close>. Nodes 0 to 3 are the input and
  output nodes of the two wires, node 4 is \<^verbatim>\<open>H\<close>, node 5 is \<^verbatim>\<open>CX\<close>.
\<close>

definition scenario_dag :: dag_circuit where
  "scenario_dag =
     \<lparr>dag_nodes =
        [InputNode (Wire ''q'' 0 QubitWire), OutputNode (Wire ''q'' 0 QubitWire),
         InputNode (Wire ''q'' 1 QubitWire), OutputNode (Wire ''q'' 1 QubitWire),
         OperationNode HGate [Wire ''q'' 0 QubitWire],
         OperationNode CXGate [Wire ''q'' 0 QubitWire, Wire ''q'' 1 QubitWire]],
      dag_edges =
        [(0, 4, Wire ''q'' 0 QubitWire), (4, 5, Wire ''q'' 0 QubitWire),
         (5, 1, Wire ''q'' 0 QubitWire), (2, 5, Wire ''q'' 1 QubitWire),
         (5, 3, Wire ''q'' 1 QubitWire)]\<rparr>"

section \<open>The pass framework and the DeepestPath pass (deepest_path.py)\<close>

text \<open>
  Modelled from the spec: the Property Set and the passes of the framework (section
  3), whose classes are not among the source files. The Property Set maps a property
  name to a value. A pass is an analysis or a transformation pass, declares the
  property names it requires, preserves and invalidates, and has a \<^verbatim>\<open>run\<close>
  method. The method is run on the current DAG and Property Set; its result is the
  DAG as the call leaves it, the Property Set as the call leaves it, and either the
  error raised or the value returned: a replacement DAG, or \<^verbatim>\<open>None\<close>.
\<close>

type_synonym 'v property_set = "string \<rightharpoonup> 'v"

type_synonym ('dag, 'v) run_result = "'dag \<times> 'v property_set \<times> (error + 'dag option)"

record ('dag, 'v) pass =
  is_analysis :: bool
  requires :: "string list"
  preserves :: "string list"
  invalidates :: "string list"
  run :: "'dag \<Rightarrow> 'v property_set \<Rightarrow> ('dag, 'v) run_result"

text \<open>
  \<^verbatim>\<open>DeepestPath.run\<close>. The method \<^verbatim>\<open>longest_path\<close> belongs to the class of
  \<^verbatim>\<open>dag\<close>, which is not among the source files, so \<^verbatim>\<open>run\<close> takes it as a
  parameter: a query that returns a value or raises. An exception raised by it
  leaves \<^verbatim>\<open>run\<close> before the assignment. The method has no \<^verbatim>\<open>return\<close>: it returns
  \<^verbatim>\<open>None\<close>.
\<close>

definition DeepestPath_run ::
  "('dag \<Rightarrow> error + 'v) \<Rightarrow> 'dag \<Rightarrow> 'v property_set \<Rightarrow> ('dag, 'v) run_result" where
  "DeepestPath_run longest_path_of dag property_set =
     (case longest_path_of dag of
        Inl e \<Rightarrow> (dag, property_set, Inl e)
      | Inr path \<Rightarrow> (dag, property_set(''deepest_path'' \<mapsto> path), Inr None))"

text \<open>
  Modelled from the spec: what \<^verbatim>\<open>DeepestPath\<close> inherits from \<^verbatim>\<open>AnalysisPass\<close>,
  which is not among the source files. The class declares nothing besides \<^verbatim>\<open>run\<close>:
  it is an analysis pass that requires nothing, and it names no preserved or
  invalidated property.
\<close>

definition DeepestPath :: "('dag \<Rightarrow> error + 'v) \<Rightarrow> ('dag, 'v) pass" where
  "DeepestPath longest_path_of =
     \<lparr>is_analysis = True, requires = [], preserves = [], invalidates = [],
      run = DeepestPath_run longest_path_of\<rparr>"

text \<open>
  Modelled from the spec: the pre-execution check of the pass framework, which is
  not among the source files: every declared required property exists in the
  Property Set.
\<close>

definition requires_met :: "('dag, 'v) pass \<Rightarrow> 'v property_set \<Rightarrow> bool" where
  "requires_met p property_set \<longleftrightarrow> list_all (\<lambda>k. property_set k \<noteq> None) (requires p)"

text \<open>
  Modelled from the spec: one pass execution of the pass framework (section 4.3),
  which is not among the source files. It fails with \<^verbatim>\<open>MissingPropertyError\<close> if a
  required property is missing; a failure of \<^verbatim>\<open>run\<close> is wrapped in
  \<^verbatim>\<open>PassExecutionError\<close>; a failure comes with the DAG as of the last completed
  pass. Otherwise a replacement DAG returned by a transformation pass becomes the
  current DAG, a DAG returned by an analysis pass is discarded, and the keys the pass
  invalidates and does not preserve are removed from the Property Set.
\<close>

definition execute_pass ::
  "('dag, 'v) pass \<Rightarrow> 'dag \<Rightarrow> 'v property_set \<Rightarrow> (error \<times> 'dag) + ('dag \<times> 'v property_set)" where
  "execute_pass p dag property_set =
     (if \<not> requires_met p property_set then Inl (MissingPropertyError, dag)
      else (case run p dag property_set of
              (dag', property_set', Inl e) \<Rightarrow> Inl (PassExecutionError e, dag)
            | (dag', property_set', Inr returned) \<Rightarrow>
                Inr (if is_analysis p then dag'
                     else (case returned of None \<Rightarrow> dag' | Some new_dag \<Rightarrow> new_dag),
                     (\<lambda>k. if k \<in> set (invalidates p) \<and> k \<notin> set (preserves p)
                          then None else property_set' k))))"

text \<open>A circuit with one quantum register \<^verbatim>\<open>q\<close> of two qubits and nothing applied yet.\<close>

definition two_qubit_circuit :: quantum_circuit where
  "two_qubit_circuit =
     \<lparr>circ_id = 7, qregs = [QuantumRegister 2 ''q''], cregs = [], data = []\<rparr>"

section \<open>Properties of the DAG model\<close>

lemma predecessors_edge_rel: "u \<in> set (predecessors dag v) \<longleftrightarrow> (u, v) \<in> edge_rel dag"
  by (force simp: predecessors_def edge_rel_def)

lemma finite_edge_rel: "finite (edge_rel dag)"
  by (simp add: edge_rel_def)

text \<open>
  In an acyclic graph some pending node has all its predecessors produced, as long
  as every predecessor is pending or produced: a pending node that is minimal for the
  edge relation among the pending ones.
\<close>

lemma ready_node_exists:
  assumes acyc: "acyclic (edge_rel dag)"
    and sources: "\<forall>(u, v) \<in> edge_rel dag. u \<in> set pending \<union> set produced"
    and nonempty: "pending \<noteq> []"
  shows "\<exists>v \<in> set pending. list_all (\<lambda>u. u \<in> set produced) (predecessors dag v)"
proof -
  have "wf (edge_rel dag)"
    using finite_edge_rel acyc by (rule finite_acyclic_wf)
  moreover from nonempty obtain x where "x \<in> set pending"
    by (cases pending) auto
  ultimately obtain v where v: "v \<in> set pending"
    and minimal: "\<And>u. (u, v) \<in> edge_rel dag \<Longrightarrow> u \<notin> set pending"
    by (rule wfE_min) blast
  have "list_all (\<lambda>u. u \<in> set produced) (predecessors dag v)"
    unfolding list_all_iff
  proof
    fix u
    assume "u \<in> set (predecessors dag v)"
    then have edge: "(u, v) \<in> edge_rel dag"
      by (simp add: predecessors_edge_rel)
    then have "u \<notin> set pending"
      by (rule minimal)
    moreover from edge sources have "u \<in> set pending \<union> set produced"
      by blast
    ultimately show "u \<in> set produced"
      by simp
  qed
  with v show ?thesis
    by blast
qed

lemma topological_ids_total:
  "acyclic (edge_rel dag) \<Longrightarrow>
   \<forall>(u, v) \<in> edge_rel dag. u \<in> set pending \<union> set produced \<Longrightarrow>
   \<exists>order. topological_ids dag pending produced = Inr order"
proof (induction dag pending produced rule: topological_ids.induct)
  case (1 dag pending produced)
  show ?case
  proof (cases "pending = []")
    case True
    then show ?thesis
      by (simp add: topological_ids.simps)
  next
    case False
    let ?ready = "\<lambda>v. list_all (\<lambda>u. u \<in> set produced) (predecessors dag v)"
    from "1.prems" False have "\<exists>v \<in> set pending. ?ready v"
      by (intro ready_node_exists)
    then obtain v where found: "find ?ready pending = Some v"
      by (cases "find ?ready pending") (auto simp: find_None_iff)
    have "\<forall>(u, w) \<in> edge_rel dag. u \<in> set (remove1 v pending) \<union> set (produced @ [v])"
      using "1.prems"(2) by (auto simp: in_set_remove1)
    with "1.IH" [OF False found "1.prems"(1)]
    obtain order where "topological_ids dag (remove1 v pending) (produced @ [v]) = Inr order"
      by blast
    with False found show ?thesis
      by (simp add: topological_ids.simps)
  qed
qed

text \<open>On a DAG that satisfies its invariant, \<^verbatim>\<open>longest_path\<close> returns a path.\<close>

lemma longest_path_total:
  assumes "well_formed dag"
  shows "\<exists>path. longest_path dag = Inr path"
proof -
  from assms have "acyclic (edge_rel dag)"
    and "\<forall>(u, v) \<in> edge_rel dag. u \<in> set [0 ..< length (dag_nodes dag)] \<union> set []"
    by (auto simp: well_formed_def edge_rel_def list_all_iff)
  then obtain order where "topological_ids dag [0 ..< length (dag_nodes dag)] [] = Inr order"
    using topological_ids_total by blast
  then show ?thesis
    by (simp add: longest_path_def Let_def)
qed

text \<open>
  The scenario of section 8: the DAG satisfies the invariant and its longest path is
  \<^verbatim>\<open>[H(q0), CX(q0,q1)]\<close>.
\<close>

lemma scenario_well_formed: "well_formed scenario_dag"
  by code_simp

lemma scenario_longest_path:
  "longest_path scenario_dag =
     Inr [OperationNode HGate [Wire ''q'' 0 QubitWire],
          OperationNode CXGate [Wire ''q'' 0 QubitWire, Wire ''q'' 1 QubitWire]]"
  by code_simp

section \<open>The DeepestPath pass\<close>

text \<open>
  Claim C1. Running the DeepestPath pass writes the Property Set key
  \<^verbatim>\<open>"deepest_path"\<close>, and the value is exactly what \<^verbatim>\<open>longest_path()\<close> of the DAG
  returned: whatever \<^verbatim>\<open>longest_path\<close> is, when it returns a path for the DAG, \<^verbatim>\<open>run\<close>
  stores that path unaltered under the key, and so the Property Set has it after the
  framework has executed the pass. On every DAG that satisfies the invariant of the
  DAG Graph, \<^verbatim>\<open>longest_path\<close> does return a path, and the pass stores it.
\<close>

theorem deepest_path_stored:
  "(longest_path_of dag = Inr path \<longrightarrow>
      DeepestPath_run longest_path_of dag property_set
        = (dag, property_set(''deepest_path'' \<mapsto> path), Inr None)
      \<and> fst (snd (DeepestPath_run longest_path_of dag property_set)) ''deepest_path''
        = Some path
      \<and> execute_pass (DeepestPath longest_path_of) dag property_set
        = Inr (dag, property_set(''deepest_path'' \<mapsto> path)))
   \<and> (well_formed d \<longrightarrow>
      (\<exists>p. longest_path d = Inr p
         \<and> DeepestPath_run longest_path d properties
           = (d, properties(''deepest_path'' \<mapsto> p), Inr None)))"
proof (intro conjI impI)
  assume "longest_path_of dag = Inr path"
  then show "DeepestPath_run longest_path_of dag property_set
      = (dag, property_set(''deepest_path'' \<mapsto> path), Inr None)"
    and "fst (snd (DeepestPath_run longest_path_of dag property_set)) ''deepest_path''
      = Some path"
    and "execute_pass (DeepestPath longest_path_of) dag property_set
      = Inr (dag, property_set(''deepest_path'' \<mapsto> path))"
    by (simp_all add: DeepestPath_run_def DeepestPath_def execute_pass_def requires_met_def)
next
  assume "well_formed d"
  then obtain p where "longest_path d = Inr p"
    using longest_path_total by blast
  then show "\<exists>p. longest_path d = Inr p
      \<and> DeepestPath_run longest_path d properties
        = (d, properties(''deepest_path'' \<mapsto> p), Inr None)"
    by (simp add: DeepestPath_run_def)
qed

theorem deepest_path_stored_witness:
  "longest_path scenario_dag =
     Inr [OperationNode HGate [Wire ''q'' 0 QubitWire],
          OperationNode CXGate [Wire ''q'' 0 QubitWire, Wire ''q'' 1 QubitWire]]
   \<and> well_formed scenario_dag
   \<and> fst (snd (DeepestPath_run longest_path scenario_dag Map.empty)) ''deepest_path''
     = Some [OperationNode HGate [Wire ''q'' 0 QubitWire],
             OperationNode CXGate [Wire ''q'' 0 QubitWire, Wire ''q'' 1 QubitWire]]
   \<and> execute_pass (DeepestPath longest_path) scenario_dag Map.empty
     = Inr (scenario_dag,
         [''deepest_path'' \<mapsto> [OperationNode HGate [Wire ''q'' 0 QubitWire],
            OperationNode CXGate [Wire ''q'' 0 QubitWire, Wire ''q'' 1 QubitWire]]])"
  using deepest_path_stored [where longest_path_of = longest_path and dag = scenario_dag
      and property_set = Map.empty and d = scenario_dag and properties = Map.empty]
    scenario_longest_path scenario_well_formed
  by simp

text \<open>
  Claim C2. \<^verbatim>\<open>DeepestPath.run\<close> is read-only with respect to the DAG: the DAG is the
  same after the call as before, the call returns \<^verbatim>\<open>None\<close> (no replacement DAG), and of
  the Property Set only the key \<^verbatim>\<open>"deepest_path"\<close> can differ; if the call raises, the
  Property Set is untouched too. So after the framework has executed the pass, the
  current DAG is the DAG it was before, whether the pass completed or failed.
\<close>

theorem deepest_path_read_only:
  "(case DeepestPath_run longest_path_of dag property_set of
      (dag', property_set', result) \<Rightarrow>
        dag' = dag
        \<and> (\<forall>k. k \<noteq> ''deepest_path'' \<longrightarrow> property_set' k = property_set k)
        \<and> (case result of
             Inr returned \<Rightarrow> returned = None
           | Inl e \<Rightarrow> property_set' = property_set))
   \<and> (case execute_pass (DeepestPath longest_path_of) dag property_set of
        Inr (current, property_set') \<Rightarrow>
          current = dag
          \<and> (\<forall>k. k \<noteq> ''deepest_path'' \<longrightarrow> property_set' k = property_set k)
      | Inl (e, current) \<Rightarrow> current = dag)"
  by (simp add: DeepestPath_run_def DeepestPath_def execute_pass_def requires_met_def
      split: sum.splits)

theorem deepest_path_read_only_witness:
  "fst (DeepestPath_run longest_path scenario_dag [''depth'' \<mapsto> []]) = scenario_dag
   \<and> snd (snd (DeepestPath_run longest_path scenario_dag [''depth'' \<mapsto> []])) = Inr None
   \<and> ''depth'' \<noteq> ''deepest_path''
   \<and> fst (snd (DeepestPath_run longest_path scenario_dag [''depth'' \<mapsto> []])) ''depth''
     = Some []
   \<and> map_sum snd fst (execute_pass (DeepestPath longest_path) scenario_dag [''depth'' \<mapsto> []])
     = Inr scenario_dag"
  using deepest_path_read_only [where longest_path_of = longest_path and dag = scenario_dag
      and property_set = "[''depth'' \<mapsto> []]"]
    scenario_longest_path
  by (simp add: DeepestPath_run_def DeepestPath_def execute_pass_def requires_met_def)

text \<open>
  Claim C7. The DeepestPath pass declares no required property, so the check of the
  framework that every required property exists in the Property Set holds for every
  Property Set, the empty one included, and executing the pass never fails with
  \<^verbatim>\<open>MissingPropertyError\<close>.
\<close>

theorem deepest_path_requires_nothing:
  "requires (DeepestPath longest_path_of) = []
   \<and> requires_met (DeepestPath longest_path_of) property_set
   \<and> requires_met (DeepestPath longest_path_of) Map.empty
   \<and> (\<forall>current. execute_pass (DeepestPath longest_path_of) dag property_set
          \<noteq> Inl (MissingPropertyError, current))"
  by (simp add: DeepestPath_def DeepestPath_run_def requires_met_def execute_pass_def
      split: sum.splits)

theorem deepest_path_requires_nothing_witness:
  "requires_met (DeepestPath longest_path) Map.empty
   \<and> execute_pass (DeepestPath longest_path) scenario_dag Map.empty
       \<noteq> Inl (MissingPropertyError, scenario_dag)"
  using deepest_path_requires_nothing [where longest_path_of = longest_path
      and dag = scenario_dag and property_set = Map.empty]
  by simp

section \<open>Applying gates to a circuit\<close>

lemma z_qubit_declared:
  "has_qubit self q \<Longrightarrow>
   z_qubit self q =
     (self\<lparr>data := data self @ [Attached (ZGate q (Some (circ_id self)))]\<rparr>,
      Inr (ZGate q (Some (circ_id self))))"
  by (simp add: z_qubit_def check_qubit_def attach_def)

lemma z_qubit_undeclared:
  "\<not> has_qubit self q \<Longrightarrow> z_qubit self q = (self, Inl UnknownWireError)"
  by (simp add: z_qubit_def check_qubit_def)

text \<open>
  The loop of \<^verbatim>\<open>z\<close> over indices of a declared register: every step attaches its gate,
  so the circuit grows by one gate per index, in the order of the indices, and the
  instruction set collects the same gates.
\<close>

lemma z_loop_declared:
  "q \<in> set (qregs self) \<Longrightarrow> \<forall>j \<in> set js. j < sz q \<Longrightarrow>
   z_loop self gs q js =
     (self\<lparr>data := data self @ map (\<lambda>j. Attached (ZGate (q, int j) (Some (circ_id self)))) js\<rparr>,
      Inr (InstructionSet
        (instructions gs \<union> set (map (\<lambda>j. ZGate (q, int j) (Some (circ_id self))) js))))"
proof (induction js arbitrary: self gs)
  case Nil
  then show ?case by simp
next
  case (Cons j js)
  let ?g = "ZGate (q, int j) (Some (circ_id self))"
  let ?self' = "self\<lparr>data := data self @ [Attached ?g]\<rparr>"
  from Cons.prems have "has_qubit self (q, int j)"
    by (simp add: has_qubit_def)
  then have step: "z_qubit self (q, int j) = (?self', Inr ?g)"
    by (rule z_qubit_declared)
  have "q \<in> set (qregs ?self')" and "\<forall>j \<in> set js. j < sz q"
    using Cons.prems by simp_all
  then have "z_loop ?self' (add gs ?g) q js =
     (?self'\<lparr>data := data ?self' @ map (\<lambda>j. Attached (ZGate (q, int j) (Some (circ_id ?self')))) js\<rparr>,
      Inr (InstructionSet
        (instructions (add gs ?g) \<union> set (map (\<lambda>j. ZGate (q, int j) (Some (circ_id ?self'))) js))))"
    by (rule Cons.IH)
  with step show ?case
    by (simp add: add_def)
qed

text \<open>
  Claim C3, as stated: for every circuit and every qubit \<open>q\<close>, \<^verbatim>\<open>cy(q, q)\<close> fails with
  \<^verbatim>\<open>DuplicateWireArgumentError\<close>. It does not when \<open>q\<close> is not a wire of the circuit:
  \<^verbatim>\<open>cy\<close> checks each qubit before it checks for duplicates. On a circuit whose only
  register is \<^verbatim>\<open>q\<close>, the qubit 0 of another register \<^verbatim>\<open>r\<close> given twice fails with
  \<^verbatim>\<open>UnknownWireError\<close>.
\<close>

theorem cy_duplicate_undeclared_counterexample:
  "cy \<lparr>circ_id = 0, qregs = [QuantumRegister 2 ''q''], cregs = [], data = []\<rparr>
      (QuantumRegister 2 ''r'', 0) (QuantumRegister 2 ''r'', 0)
   = (\<lparr>circ_id = 0, qregs = [QuantumRegister 2 ''q''], cregs = [], data = []\<rparr>,
      Inl UnknownWireError)
   \<and> snd (cy \<lparr>circ_id = 0, qregs = [QuantumRegister 2 ''q''], cregs = [], data = []\<rparr>
      (QuantumRegister 2 ''r'', 0) (QuantumRegister 2 ''r'', 0))
     \<noteq> Inl DuplicateWireArgumentError"
  by (simp add: cy_def check_qubit_def has_qubit_def QuantumRegister_def)

text \<open>
  Claim C3, amended. For every circuit and every qubit \<open>q\<close>, a 2-qubit gate given \<open>q\<close>
  twice fails and attaches no gate: \<^verbatim>\<open>iswap(q, q)\<close> always fails with
  \<^verbatim>\<open>DuplicateWireArgumentError\<close>; \<^verbatim>\<open>cy(q, q)\<close> fails with
  \<^verbatim>\<open>DuplicateWireArgumentError\<close> when \<open>q\<close> is a declared wire of the circuit, and with
  \<^verbatim>\<open>UnknownWireError\<close> when it is not. In each case the circuit is unchanged.
\<close>

theorem duplicate_qubit_rejected:
  "iswap self q q = (self, Inl DuplicateWireArgumentError)
   \<and> (has_qubit self q \<longrightarrow> cy self q q = (self, Inl DuplicateWireArgumentError))
   \<and> (\<not> has_qubit self q \<longrightarrow> cy self q q = (self, Inl UnknownWireError))"
  by (simp add: cy_def check_qubit_def check_dups_def iswap_def circuit_append_def
      iSwapGate_def num_clbits_def)

theorem duplicate_qubit_rejected_witness:
  "has_qubit two_qubit_circuit (QuantumRegister 2 ''q'', 0)
   \<and> cy two_qubit_circuit (QuantumRegister 2 ''q'', 0) (QuantumRegister 2 ''q'', 0)
       = (two_qubit_circuit, Inl DuplicateWireArgumentError)
   \<and> iswap two_qubit_circuit (QuantumRegister 2 ''q'', 0) (QuantumRegister 2 ''q'', 0)
       = (two_qubit_circuit, Inl DuplicateWireArgumentError)
   \<and> \<not> has_qubit two_qubit_circuit (QuantumRegister 2 ''r'', 0)
   \<and> cy two_qubit_circuit (QuantumRegister 2 ''r'', 0) (QuantumRegister 2 ''r'', 0)
       = (two_qubit_circuit, Inl UnknownWireError)"
proof -
  have declared: "has_qubit two_qubit_circuit (QuantumRegister 2 ''q'', 0)"
    by (simp add: has_qubit_def two_qubit_circuit_def QuantumRegister_def)
  have undeclared: "\<not> has_qubit two_qubit_circuit (QuantumRegister 2 ''r'', 0)"
    by (simp add: has_qubit_def two_qubit_circuit_def QuantumRegister_def)
  show ?thesis
    using duplicate_qubit_rejected [of two_qubit_circuit "(QuantumRegister 2 ''q'', 0)"]
      duplicate_qubit_rejected [of two_qubit_circuit "(QuantumRegister 2 ''r'', 0)"]
      declared undeclared
    by simp
qed

text \<open>
  Claim C4. A qubit argument that is not a declared wire of the circuit makes the
  call fail with \<^verbatim>\<open>UnknownWireError\<close> before any gate is attached: \<^verbatim>\<open>cy(ctl, tgt)\<close>
  when \<^verbatim>\<open>ctl\<close> or \<^verbatim>\<open>tgt\<close> is not declared, \<^verbatim>\<open>z(q)\<close> when the single qubit \<^verbatim>\<open>q\<close> is
  not declared. The circuit is unchanged.
\<close>

theorem undeclared_qubit_rejected:
  "(\<not> has_qubit self ctl \<or> \<not> has_qubit self tgt
      \<longrightarrow> cy self ctl tgt = (self, Inl UnknownWireError))
   \<and> (\<not> has_qubit self q \<longrightarrow> z self (SingleQubit q) = (self, Inl UnknownWireError))"
  by (auto simp: cy_def check_qubit_def z_qubit_undeclared)

theorem undeclared_qubit_rejected_witness:
  "\<not> has_qubit two_qubit_circuit (QuantumRegister 2 ''q'', 2)
   \<and> cy two_qubit_circuit (QuantumRegister 2 ''q'', 0) (QuantumRegister 2 ''q'', 2)
       = (two_qubit_circuit, Inl UnknownWireError)
   \<and> cy two_qubit_circuit (QuantumRegister 2 ''q'', 2) (QuantumRegister 2 ''q'', 0)
       = (two_qubit_circuit, Inl UnknownWireError)
   \<and> z two_qubit_circuit (SingleQubit (QuantumRegister 2 ''q'', 2))
       = (two_qubit_circuit, Inl UnknownWireError)"
proof -
  have undeclared: "\<not> has_qubit two_qubit_circuit (QuantumRegister 2 ''q'', 2)"
    by (simp add: has_qubit_def two_qubit_circuit_def QuantumRegister_def)
  show ?thesis
    using undeclared_qubit_rejected [of two_qubit_circuit "(QuantumRegister 2 ''q'', 0)"
        "(QuantumRegister 2 ''q'', 2)" "(QuantumRegister 2 ''q'', 2)"]
      undeclared_qubit_rejected [of two_qubit_circuit "(QuantumRegister 2 ''q'', 2)"
        "(QuantumRegister 2 ''q'', 0)" "(QuantumRegister 2 ''q'', 2)"]
      undeclared
    by simp
qed

text \<open>
  Claim C5. The convenience calls only translate to the generic entry points:
  \<^verbatim>\<open>iswap(q1, q2)\<close> is \<^verbatim>\<open>append(iSwapGate(), [q1, q2], [])\<close>, circuit and result;
  \<^verbatim>\<open>cy(ctl, tgt)\<close>, once its three argument checks have succeeded, is
  \<^verbatim>\<open>_attach(CyGate(ctl, tgt, self))\<close>, circuit and result; and when a check fails,
  \<^verbatim>\<open>cy\<close> raises and leaves the circuit as it was.
\<close>

theorem convenience_calls_translate:
  "iswap self q1 q2 = circuit_append self iSwapGate [q1, q2] []
   \<and> (check_qubit self ctl = Inr () \<and> check_qubit self tgt = Inr ()
        \<and> check_dups self [ctl, tgt] = Inr ()
      \<longrightarrow> cy self ctl tgt = attach self (CyGate ctl tgt (Some (circ_id self))))
   \<and> (\<not> (check_qubit self ctl = Inr () \<and> check_qubit self tgt = Inr ()
          \<and> check_dups self [ctl, tgt] = Inr ())
      \<longrightarrow> fst (cy self ctl tgt) = self \<and> isl (snd (cy self ctl tgt)))"
  by (auto simp: iswap_def cy_def split: sum.splits)

theorem convenience_calls_translate_witness:
  "check_qubit two_qubit_circuit (QuantumRegister 2 ''q'', 0) = Inr ()
   \<and> check_qubit two_qubit_circuit (QuantumRegister 2 ''q'', 1) = Inr ()
   \<and> check_dups two_qubit_circuit [(QuantumRegister 2 ''q'', 0), (QuantumRegister 2 ''q'', 1)]
       = Inr ()
   \<and> cy two_qubit_circuit (QuantumRegister 2 ''q'', 0) (QuantumRegister 2 ''q'', 1)
       = attach two_qubit_circuit
           (CyGate (QuantumRegister 2 ''q'', 0) (QuantumRegister 2 ''q'', 1) (Some 7))
   \<and> check_dups two_qubit_circuit [(QuantumRegister 2 ''q'', 0), (QuantumRegister 2 ''q'', 0)]
       \<noteq> Inr ()
   \<and> fst (cy two_qubit_circuit (QuantumRegister 2 ''q'', 0) (QuantumRegister 2 ''q'', 0))
       = two_qubit_circuit"
proof -
  have checked: "check_qubit two_qubit_circuit (QuantumRegister 2 ''q'', 0) = Inr ()"
    "check_qubit two_qubit_circuit (QuantumRegister 2 ''q'', 1) = Inr ()"
    "check_dups two_qubit_circuit [(QuantumRegister 2 ''q'', 0), (QuantumRegister 2 ''q'', 1)]
       = Inr ()"
    by (simp_all add: check_qubit_def check_dups_def has_qubit_def two_qubit_circuit_def
        QuantumRegister_def)
  have duplicate:
    "check_dups two_qubit_circuit [(QuantumRegister 2 ''q'', 0), (QuantumRegister 2 ''q'', 0)]
       \<noteq> Inr ()"
    by (simp add: check_dups_def)
  have ident: "circ_id two_qubit_circuit = 7"
    by (simp add: two_qubit_circuit_def)
  show ?thesis
    using convenience_calls_translate [of two_qubit_circuit _ _
        "(QuantumRegister 2 ''q'', 0)" "(QuantumRegister 2 ''q'', 1)"]
      convenience_calls_translate [of two_qubit_circuit _ _
        "(QuantumRegister 2 ''q'', 0)" "(QuantumRegister 2 ''q'', 0)"]
      checked duplicate ident
    by simp
qed

text \<open>
  The gates that \<^verbatim>\<open>z\<close> builds for different indices of a register are different
  gates.
\<close>

lemma z_gates_distinct:
  "distinct (map (\<lambda>j. \<lparr>name = ''z'', param = [], arg = [(q, int j)], circuit = c\<rparr>) js)
     \<longleftrightarrow> distinct js"
  by (simp add: distinct_map inj_on_def)

text \<open>
  Claim C9, as stated: called with a whole register, \<^verbatim>\<open>z\<close> applies one Z gate to
  each of its qubits and returns the instruction set of these gates; called with a
  single qubit, it attaches one Z gate to it. It does not when the register or the
  qubit is not declared in the circuit: \<^verbatim>\<open>z\<close> checks every qubit before it attaches
  a gate. On a circuit whose only register is \<^verbatim>\<open>q\<close>, the call with the register
  \<^verbatim>\<open>r\<close> of three qubits, and the call with the qubit 0 of \<^verbatim>\<open>r\<close>, fail with
  \<^verbatim>\<open>UnknownWireError\<close> and attach nothing.
\<close>

theorem z_whole_register_counterexample:
  "z \<lparr>circ_id = 7, qregs = [QuantumRegister 2 ''q''], cregs = [], data = []\<rparr>
      (WholeRegister (QuantumRegister 3 ''r''))
   = (\<lparr>circ_id = 7, qregs = [QuantumRegister 2 ''q''], cregs = [], data = []\<rparr>,
      Inl UnknownWireError)
   \<and> z \<lparr>circ_id = 7, qregs = [QuantumRegister 2 ''q''], cregs = [], data = []\<rparr>
      (SingleQubit (QuantumRegister 3 ''r'', 0))
   = (\<lparr>circ_id = 7, qregs = [QuantumRegister 2 ''q''], cregs = [], data = []\<rparr>,
      Inl UnknownWireError)"
  by (simp add: QuantumRegister_def upt_rec z_qubit_def check_qubit_def has_qubit_def)

text \<open>
  Claim C9, amended. Called with a whole register \<open>q\<close> that is declared in the
  circuit, \<^verbatim>\<open>z\<close> attaches, for \<open>j = 0 .. sz q - 1\<close> in increasing order of \<open>j\<close>, one
  gate with name \<^verbatim>\<open>"z"\<close>, no parameters and the single argument \<open>(q, j)\<close>, bound to
  the circuit, and returns the instruction set of exactly these gates, which are
  \<open>sz q\<close> different gates (a register of size 0 attaches nothing and gives the empty
  set, declared or not). Called with a register of positive size that is not
  declared, it fails with \<^verbatim>\<open>UnknownWireError\<close> at the first qubit, with nothing
  attached. Called with a single declared qubit, it attaches exactly one such gate,
  on that qubit, and returns it; called with a single qubit that is not declared, it
  fails with \<^verbatim>\<open>UnknownWireError\<close>, with nothing attached.
\<close>

theorem z_applies:
  "(q \<in> set (qregs self) \<or> sz q = 0 \<longrightarrow>
      z self (WholeRegister q) =
        (self\<lparr>data := data self @
            map (\<lambda>j. Attached \<lparr>name = ''z'', param = [], arg = [(q, int j)],
                                 circuit = Some (circ_id self)\<rparr>) [0 ..< sz q]\<rparr>,
         Inr (GateSet (InstructionSet
            (set (map (\<lambda>j. \<lparr>name = ''z'', param = [], arg = [(q, int j)],
                              circuit = Some (circ_id self)\<rparr>) [0 ..< sz q])))))
      \<and> card (set (map (\<lambda>j. \<lparr>name = ''z'', param = [], arg = [(q, int j)],
                               circuit = Some (circ_id self)\<rparr>) [0 ..< sz q])) = sz q)
   \<and> (q \<notin> set (qregs self) \<and> 0 < sz q \<longrightarrow>
      z self (WholeRegister q) = (self, Inl UnknownWireError))
   \<and> (has_qubit self x \<longrightarrow>
      z self (SingleQubit x) =
        (self\<lparr>data := data self @
            [Attached \<lparr>name = ''z'', param = [], arg = [x],
                        circuit = Some (circ_id self)\<rparr>]\<rparr>,
         Inr (OneGate \<lparr>name = ''z'', param = [], arg = [x],
                        circuit = Some (circ_id self)\<rparr>)))
   \<and> (\<not> has_qubit self x \<longrightarrow>
      z self (SingleQubit x) = (self, Inl UnknownWireError))"
proof (intro conjI impI)
  assume "q \<in> set (qregs self) \<or> sz q = 0"
  then show "z self (WholeRegister q) =
        (self\<lparr>data := data self @
            map (\<lambda>j. Attached \<lparr>name = ''z'', param = [], arg = [(q, int j)],
                                 circuit = Some (circ_id self)\<rparr>) [0 ..< sz q]\<rparr>,
         Inr (GateSet (InstructionSet
            (set (map (\<lambda>j. \<lparr>name = ''z'', param = [], arg = [(q, int j)],
                              circuit = Some (circ_id self)\<rparr>) [0 ..< sz q])))))"
  proof
    assume "q \<in> set (qregs self)"
    then show ?thesis
      by (simp add: z_loop_declared ZGate_def)
  next
    assume "sz q = 0"
    then show ?thesis
      by simp
  qed
next
  have "distinct (map (\<lambda>j. \<lparr>name = ''z'', param = [], arg = [(q, int j)],
      circuit = Some (circ_id self)\<rparr>) [0 ..< sz q])"
    by (simp add: z_gates_distinct)
  then have "card (set (map (\<lambda>j. \<lparr>name = ''z'', param = [], arg = [(q, int j)],
      circuit = Some (circ_id self)\<rparr>) [0 ..< sz q]))
      = length (map (\<lambda>j. \<lparr>name = ''z'', param = [], arg = [(q, int j)],
      circuit = Some (circ_id self)\<rparr>) [0 ..< sz q])"
    by (rule distinct_card)
  then show "card (set (map (\<lambda>j. \<lparr>name = ''z'', param = [], arg = [(q, int j)],
      circuit = Some (circ_id self)\<rparr>) [0 ..< sz q])) = sz q"
    by simp
next
  assume "q \<notin> set (qregs self) \<and> 0 < sz q"
  then show "z self (WholeRegister q) = (self, Inl UnknownWireError)"
    by (simp add: upt_conv_Cons z_qubit_undeclared has_qubit_def)
next
  assume "has_qubit self x"
  then show "z self (SingleQubit x) =
        (self\<lparr>data := data self @
            [Attached \<lparr>name = ''z'', param = [], arg = [x],
                        circuit = Some (circ_id self)\<rparr>]\<rparr>,
         Inr (OneGate \<lparr>name = ''z'', param = [], arg = [x],
                        circuit = Some (circ_id self)\<rparr>))"
    by (simp add: z_qubit_declared ZGate_def)
next
  assume "\<not> has_qubit self x"
  then show "z self (SingleQubit x) = (self, Inl UnknownWireError)"
    by (simp add: z_qubit_undeclared)
qed

theorem z_applies_witness:
  "QuantumRegister 2 ''q'' \<in> set (qregs two_qubit_circuit)
   \<and> z two_qubit_circuit (WholeRegister (QuantumRegister 2 ''q'')) =
     (two_qubit_circuit\<lparr>data :=
         [Attached \<lparr>name = ''z'', param = [], arg = [(QuantumRegister 2 ''q'', 0)],
                     circuit = Some 7\<rparr>,
          Attached \<lparr>name = ''z'', param = [], arg = [(QuantumRegister 2 ''q'', 1)],
                     circuit = Some 7\<rparr>]\<rparr>,
      Inr (GateSet (InstructionSet
         {\<lparr>name = ''z'', param = [], arg = [(QuantumRegister 2 ''q'', 0)], circuit = Some 7\<rparr>,
          \<lparr>name = ''z'', param = [], arg = [(QuantumRegister 2 ''q'', 1)],
            circuit = Some 7\<rparr>})))
   \<and> QuantumRegister 3 ''r'' \<notin> set (qregs two_qubit_circuit)
   \<and> 0 < sz (QuantumRegister 3 ''r'')
   \<and> z two_qubit_circuit (WholeRegister (QuantumRegister 3 ''r''))
       = (two_qubit_circuit, Inl UnknownWireError)
   \<and> has_qubit two_qubit_circuit (QuantumRegister 2 ''q'', 1)
   \<and> z two_qubit_circuit (SingleQubit (QuantumRegister 2 ''q'', 1)) =
     (two_qubit_circuit\<lparr>data :=
         [Attached \<lparr>name = ''z'', param = [], arg = [(QuantumRegister 2 ''q'', 1)],
                     circuit = Some 7\<rparr>]\<rparr>,
      Inr (OneGate \<lparr>name = ''z'', param = [], arg = [(QuantumRegister 2 ''q'', 1)],
                     circuit = Some 7\<rparr>))
   \<and> \<not> has_qubit two_qubit_circuit (QuantumRegister 2 ''q'', 2)
   \<and> z two_qubit_circuit (SingleQubit (QuantumRegister 2 ''q'', 2))
       = (two_qubit_circuit, Inl UnknownWireError)"
proof -
  have declared: "QuantumRegister 2 ''q'' \<in> set (qregs two_qubit_circuit)"
    by (simp add: two_qubit_circuit_def)
  have undeclared: "QuantumRegister 3 ''r'' \<notin> set (qregs two_qubit_circuit)
      \<and> 0 < sz (QuantumRegister 3 ''r'')"
    by (simp add: two_qubit_circuit_def QuantumRegister_def)
  have wire: "has_qubit two_qubit_circuit (QuantumRegister 2 ''q'', 1)"
    by (simp add: has_qubit_def two_qubit_circuit_def QuantumRegister_def)
  have no_wire: "\<not> has_qubit two_qubit_circuit (QuantumRegister 2 ''q'', 2)"
    by (simp add: has_qubit_def two_qubit_circuit_def QuantumRegister_def)
  have indices: "[0 ..< sz (QuantumRegister 2 ''q'')] = [0, 1]"
    by (simp add: QuantumRegister_def upt_rec)
  show ?thesis
    using z_applies [of "QuantumRegister 2 ''q''" two_qubit_circuit
        "(QuantumRegister 2 ''q'', 1)"]
      z_applies [of "QuantumRegister 3 ''r''" two_qubit_circuit
        "(QuantumRegister 2 ''q'', 2)"]
      declared undeclared wire no_wire
    by (simp add: indices) (simp add: two_qubit_circuit_def insert_commute)
qed

section \<open>The gates\<close>

text \<open>
  Claim C8. \<^verbatim>\<open>CyGate.inverse\<close> and \<^verbatim>\<open>ZGate.inverse\<close> return the gate they are called
  on: \<open>inverse g = g\<close> for every gate, so \<open>inverse\<close> is an involution and the name, the
  parameter list and the bound arguments of the gate are what they were.
\<close>

theorem inverse_is_self:
  "CyGate_inverse g = g \<and> ZGate_inverse g = g
   \<and> CyGate_inverse (CyGate_inverse g) = g \<and> ZGate_inverse (ZGate_inverse g) = g
   \<and> name (CyGate_inverse g) = name g \<and> param (CyGate_inverse g) = param g
   \<and> arg (CyGate_inverse g) = arg g
   \<and> name (ZGate_inverse g) = name g \<and> param (ZGate_inverse g) = param g
   \<and> arg (ZGate_inverse g) = arg g
   \<and> CyGate_inverse (CyGate ctl tgt circ) = CyGate ctl tgt circ
   \<and> ZGate_inverse (ZGate q circ) = ZGate q circ"
  by (simp add: CyGate_inverse_def ZGate_inverse_def)

text \<open>
  Claim C6. The iSWAP operation descriptor has name \<^verbatim>\<open>"iswap"\<close>, qubit count 2 and
  no parameters, before and after \<^verbatim>\<open>_define\<close>; its definition is the sequence of
  exactly six triples over the register \<^verbatim>\<open>q = QuantumRegister(2, 'q')\<close>:
  \<open>(S, [q0], [])\<close>, \<open>(S, [q1], [])\<close>, \<open>(H, [q0], [])\<close>, \<open>(CX, [q0, q1], [])\<close>,
  \<open>(CX, [q1, q0], [])\<close>, \<open>(H, [q1], [])\<close>, each with empty clbit arguments.
\<close>

theorem iswap_descriptor:
  "op_name iSwapGate = ''iswap'' \<and> num_qubits iSwapGate = 2 \<and> params iSwapGate = []
   \<and> num_clbits iSwapGate = 0
   \<and> op_name (iSwapGate_define iSwapGate) = ''iswap''
   \<and> num_qubits (iSwapGate_define iSwapGate) = 2
   \<and> params (iSwapGate_define iSwapGate) = []
   \<and> op_definition (iSwapGate_define iSwapGate) =
       Some [(SGate, [(QuantumRegister 2 ''q'', 0)], []),
             (SGate, [(QuantumRegister 2 ''q'', 1)], []),
             (HGate, [(QuantumRegister 2 ''q'', 0)], []),
             (CXGate, [(QuantumRegister 2 ''q'', 0), (QuantumRegister 2 ''q'', 1)], []),
             (CXGate, [(QuantumRegister 2 ''q'', 1), (QuantumRegister 2 ''q'', 0)], []),
             (HGate, [(QuantumRegister 2 ''q'', 1)], [])]
   \<and> map_option length (op_definition (iSwapGate_define iSwapGate)) = Some 6
   \<and> map_option (map (snd \<circ> snd)) (op_definition (iSwapGate_define iSwapGate))
       = Some [[], [], [], [], [], []]"
  by (simp add: iSwapGate_def iSwapGate_define_def getitem_def num_clbits_def Let_def)

text \<open>
  Claim C10. \<^verbatim>\<open>iSwapGate.to_matrix\<close> returns the 4x4 matrix with rows
  \<open>[1,0,0,0]\<close>, \<open>[0,0,i,0]\<close>, \<open>[0,i,0,0]\<close>, \<open>[0,0,0,1]\<close>, whatever the gate it is called
  on and with no circuit involved; every entry is 0, 1 or \<open>i\<close>, a Gaussian integer.
\<close>

theorem iswap_matrix:
  "to_matrix g = [[1, 0, 0, 0], [0, 0, \<i>, 0], [0, \<i>, 0, 0], [0, 0, 0, 1]]
   \<and> to_matrix g = to_matrix iSwapGate
   \<and> length (to_matrix g) = 4
   \<and> list_all (\<lambda>row. length row = 4) (to_matrix g)
   \<and> list_all (list_all (\<lambda>x. x = 0 \<or> x = 1 \<or> x = \<i>)) (to_matrix g)
   \<and> list_all (list_all (\<lambda>x. Re x \<in> \<int> \<and> Im x \<in> \<int>)) (to_matrix g)"
  by (simp add: to_matrix_def)

end
